theory Spec2Isabelle
  imports Main "HOL-Library.Multiset"
begin

section \<open>The maze server of \<open>commands/daedalus.go\<close>\<close>

text \<open>
  The development follows \<open>src/commands/daedalus.go\<close>: the maze and its rooms, the
  navigation of Icarus (\<open>GetRoom\<close>, \<open>Discover\<close>, \<open>LookAround\<close>, the four moves) and the
  generators (\<open>carvePassagesFrom\<close>, \<open>kruskal\<close>, \<open>prim\<close>, \<open>recursiveDivision\<close>).

  Go's \<open>int\<close> has 64 bits. It is modelled by \<open>int\<close>: the coordinates the program computes
  are slice indices plus or minus one, and the step counter would have to count
  \<open>2^63\<close> successful moves before it wraps.
\<close>

subsection \<open>Outcomes of a call\<close>

text \<open>
  A Go call returns, or panics (an index out of range, \<open>rand.Intn\<close> of a non-positive
  bound, \<open>make\<close> with a negative length). \<open>NoFuel\<close> is the outcome of a model whose
  recursion bound was too small; no Go run corresponds to it.
\<close>

datatype 'a result = Returned 'a | Panic | NoFuel

subsection \<open>Sequencing calls that may panic\<close>

fun rbind :: "'a result \<Rightarrow> ('a \<Rightarrow> 'b result) \<Rightarrow> 'b result" where
  "rbind (Returned a) f = f a"
| "rbind Panic f = Panic"
| "rbind NoFuel f = NoFuel"

lemma rbind_cong [fundef_cong]:
  "x = x' \<Longrightarrow> (\<And>a. x' = Returned a \<Longrightarrow> f a = f' a) \<Longrightarrow> rbind x f = rbind x' f'"
  by (cases x') auto

lemma rbind_Returned:
  "rbind x f = Returned b \<longleftrightarrow> (\<exists>a. x = Returned a \<and> f a = Returned b)"
  by (cases x) auto

subsection \<open>Package \<open>mazelib\<close>\<close>

text \<open>
  The package \<open>mazelib\<close> of the repository is not part of \<open>src/\<close>. The source uses its
  types \<open>Survey\<close> (fields \<open>Top\<close>, \<open>Right\<close>, \<open>Bottom\<close>, \<open>Left\<close>), \<open>Room\<close> (fields
  \<open>Treasure\<close>, \<open>Start\<close>, \<open>Visited\<close>, \<open>Walls\<close>) and \<open>Coordinate\<close> (fields \<open>X\<close>, \<open>Y\<close>), its
  direction constants \<open>N\<close>, \<open>S\<close>, \<open>E\<close>, \<open>W\<close>, its error value \<open>ErrVictory\<close> and the
  methods \<open>RmWall\<close> and \<open>AddWall\<close> of a room.
\<close>

record Survey =
  Top :: bool
  Right :: bool
  Bottom :: bool
  Left :: bool

record Room =
  Treasure :: bool
  Start :: bool
  Visited :: bool
  Walls :: Survey

record Coordinate =
  X :: int
  Y :: int

text \<open>The four direction constants, pairwise different.\<close>

datatype direction = N | W | S | E

text \<open>
  The error values of the program: \<open>mazelib.ErrVictory\<close>, and the errors that
  \<open>GetRoom\<close>, the moves and the two setters create with \<open>errors.New\<close>.
\<close>

datatype error =
  ErrVictory
  | ErrOutside  \<comment> \<open>"room outside of maze boundaries"\<close>
  | ErrWall  \<comment> \<open>"Can't walk through walls"\<close>
  | ErrStartInTreasure  \<comment> \<open>"can't start in the treasure"\<close>
  | ErrTreasureAtStart  \<comment> \<open>"can't have the treasure at the start"\<close>

text \<open>The zero values \<open>mazelib.Survey{}\<close> and \<open>mazelib.Room{}\<close>.\<close>

definition Survey0 :: Survey where
  "Survey0 = \<lparr>Top = False, Right = False, Bottom = False, Left = False\<rparr>"

definition Room0 :: Room where
  "Room0 = \<lparr>Treasure = False, Start = False, Visited = False, Walls = Survey0\<rparr>"

text \<open>The flag of a survey that faces a direction: \<open>Top\<close> is north, \<open>Left\<close> is west.\<close>

fun wall_in :: "direction \<Rightarrow> Survey \<Rightarrow> bool" where
  "wall_in N s = Top s"
| "wall_in S s = Bottom s"
| "wall_in E s = Right s"
| "wall_in W s = Left s"

text \<open>
  Modelled from the spec: the methods \<open>AddWall\<close> and \<open>RmWall\<close> of \<open>mazelib.Room\<close> are
  missing from \<open>src/\<close>. The spec (4.1): they "mutate exactly one cell's one wall flag";
  the neighbour is the caller's business.
\<close>

fun set_wall :: "direction \<Rightarrow> bool \<Rightarrow> Survey \<Rightarrow> Survey" where
  "set_wall N b s = s\<lparr>Top := b\<rparr>"
| "set_wall S b s = s\<lparr>Bottom := b\<rparr>"
| "set_wall E b s = s\<lparr>Right := b\<rparr>"
| "set_wall W b s = s\<lparr>Left := b\<rparr>"

definition AddWall :: "direction \<Rightarrow> Room \<Rightarrow> Room" where
  "AddWall d r = r\<lparr>Walls := set_wall d True (Walls r)\<rparr>"

definition RmWall :: "direction \<Rightarrow> Room \<Rightarrow> Room" where
  "RmWall d r = r\<lparr>Walls := set_wall d False (Walls r)\<rparr>"

subsection \<open>The maze\<close>

text \<open>\<open>type Maze struct\<close>; the field \<open>end\<close> is called \<open>endp\<close> here.\<close>

record Maze =
  rooms :: "Room list list"
  start :: Coordinate
  endp :: Coordinate
  icarus :: Coordinate
  StepsTaken :: int

text \<open>
  \<open>Width\<close> is \<open>len(m.rooms[0])\<close>: it panics on a maze without rows.
  \<open>Height\<close> is \<open>len(m.rooms)\<close>.
\<close>

definition Width :: "Maze \<Rightarrow> int result" where
  "Width m = (case rooms m of [] \<Rightarrow> Panic | r # _ \<Rightarrow> Returned (int (length r)))"

definition Height :: "Maze \<Rightarrow> int" where
  "Height m = int (length (rooms m))"

text \<open>
  \<open>GetRoom\<close> returns a pointer and an error. The pointer is \<open>&m.rooms[y][x]\<close>, here
  \<open>Some (x, y)\<close>, or, beside the error, a pointer to a new zero room that is no room of
  the maze, here \<open>None\<close>. The disjunction is evaluated from the left, so \<open>Width\<close> is
  called only for \<open>x\<close> and \<open>y\<close> that are not negative. \<open>m.rooms[y][x]\<close> panics when row
  \<open>y\<close> is shorter than row 0.
\<close>

type_synonym roomptr = "(nat \<times> nat) option"

definition GetRoom :: "Maze \<Rightarrow> int \<Rightarrow> int \<Rightarrow> (roomptr \<times> error option) result" where
  "GetRoom m x y =
     (if x < 0 \<or> y < 0 then Returned (None, Some ErrOutside)
      else rbind (Width m) (\<lambda>w.
        if x \<ge> w \<or> y \<ge> Height m then Returned (None, Some ErrOutside)
        else if nat x < length (rooms m ! nat y)
          then Returned (Some (nat x, nat y), None)
          else Panic))"

text \<open>Reading and writing through a pointer that \<open>GetRoom\<close> returned.\<close>

fun room_at :: "Maze \<Rightarrow> roomptr \<Rightarrow> Room" where
  "room_at m None = Room0"
| "room_at m (Some (x, y)) = rooms m ! y ! x"

fun room_upd :: "(Room \<Rightarrow> Room) \<Rightarrow> roomptr \<Rightarrow> Maze \<Rightarrow> Maze" where
  "room_upd f None m = m"
| "room_upd f (Some (x, y)) m =
     m\<lparr>rooms := (rooms m)[y := (rooms m ! y)[x := f (rooms m ! y ! x)]]\<rparr>"

subsection \<open>Start and treasure\<close>

definition SetStartPoint :: "int \<Rightarrow> int \<Rightarrow> Maze \<Rightarrow> error option result \<times> Maze" where
  "SetStartPoint x y m =
     (case GetRoom m x y of
        Returned (r, err) \<Rightarrow>
          (case err of
             Some e \<Rightarrow> (Returned (Some e), m)
           | None \<Rightarrow>
               if Treasure (room_at m r) then (Returned (Some ErrStartInTreasure), m)
               else (Returned None,
                     (room_upd (\<lambda>q. q\<lparr>Start := True\<rparr>) r m)\<lparr>icarus := \<lparr>X = x, Y = y\<rparr>\<rparr>))
      | Panic \<Rightarrow> (Panic, m)
      | NoFuel \<Rightarrow> (NoFuel, m))"

definition SetTreasure :: "int \<Rightarrow> int \<Rightarrow> Maze \<Rightarrow> error option result \<times> Maze" where
  "SetTreasure x y m =
     (case GetRoom m x y of
        Returned (r, err) \<Rightarrow>
          (case err of
             Some e \<Rightarrow> (Returned (Some e), m)
           | None \<Rightarrow>
               if Start (room_at m r) then (Returned (Some ErrTreasureAtStart), m)
               else (Returned None,
                     (room_upd (\<lambda>q. q\<lparr>Treasure := True\<rparr>) r m)\<lparr>endp := \<lparr>X = x, Y = y\<rparr>\<rparr>))
      | Panic \<Rightarrow> (Panic, m)
      | NoFuel \<Rightarrow> (NoFuel, m))"

subsection \<open>Navigation\<close>

text \<open>
  \<open>Discover\<close> drops the error of \<open>GetRoom\<close>: outside the maze it returns the zero survey
  and \<open>nil\<close>.
\<close>

definition Discover :: "Maze \<Rightarrow> int \<Rightarrow> int \<Rightarrow> (Survey \<times> error option) result" where
  "Discover m x y =
     rbind (GetRoom m x y) (\<lambda>(r, err).
       case err of
         Some _ \<Rightarrow> Returned (Survey0, None)
       | None \<Rightarrow> Returned (Walls (room_at m r), None))"

definition LookAround :: "Maze \<Rightarrow> (Survey \<times> error option) result" where
  "LookAround m =
     (if X (endp m) = X (icarus m) \<and> Y (endp m) = Y (icarus m)
      then Returned (Survey0, Some ErrVictory)
      else Discover m (X (icarus m)) (Y (icarus m)))"

text \<open>
  The four moves. Each returns its error (\<open>None\<close> is \<open>nil\<close>) and the maze it leaves. The
  body common to the four, with the flag looked at and the step taken as parameters,
  is \<open>move_by\<close>; the four functions of the source instantiate it.
\<close>

definition move_by :: "(Survey \<Rightarrow> bool) \<Rightarrow> int \<Rightarrow> int \<Rightarrow> Maze \<Rightarrow> error option result \<times> Maze" where
  "move_by blocked dx dy m =
     (case LookAround m of
        Returned (s, e) \<Rightarrow>
          (case e of
             Some err \<Rightarrow> (Returned (Some err), m)
           | None \<Rightarrow>
               if blocked s then (Returned (Some ErrWall), m)
               else
                 (case GetRoom m (X (icarus m) + dx) (Y (icarus m) + dy) of
                    Returned (_, err) \<Rightarrow>
                      (case err of
                         Some e' \<Rightarrow> (Returned (Some e'), m)
                       | None \<Rightarrow>
                           (Returned None,
                            m\<lparr>icarus := \<lparr>X = X (icarus m) + dx, Y = Y (icarus m) + dy\<rparr>,
                              StepsTaken := StepsTaken m + 1\<rparr>))
                  | Panic \<Rightarrow> (Panic, m)
                  | NoFuel \<Rightarrow> (NoFuel, m)))
      | Panic \<Rightarrow> (Panic, m)
      | NoFuel \<Rightarrow> (NoFuel, m))"

definition MoveLeft :: "Maze \<Rightarrow> error option result \<times> Maze" where
  "MoveLeft m = move_by Left (- 1) 0 m"

definition MoveRight :: "Maze \<Rightarrow> error option result \<times> Maze" where
  "MoveRight m = move_by Right 1 0 m"

definition MoveUp :: "Maze \<Rightarrow> error option result \<times> Maze" where
  "MoveUp m = move_by Top 0 (- 1) m"

definition MoveDown :: "Maze \<Rightarrow> error option result \<times> Maze" where
  "MoveDown m = move_by Bottom 0 1 m"

text \<open>The tables \<open>DX\<close>, \<open>DY\<close> and \<open>OPPOSITE\<close>, and the slice \<open>DIRECTIONS\<close>.\<close>

fun DX :: "direction \<Rightarrow> int" where
  "DX E = 1"
| "DX W = - 1"
| "DX S = 0"
| "DX N = 0"

fun DY :: "direction \<Rightarrow> int" where
  "DY E = 0"
| "DY W = 0"
| "DY S = 1"
| "DY N = - 1"

fun OPPOSITE :: "direction \<Rightarrow> direction" where
  "OPPOSITE E = W"
| "OPPOSITE W = E"
| "OPPOSITE N = S"
| "OPPOSITE S = N"

definition DIRECTIONS :: "direction list" where
  "DIRECTIONS = [N, W, S, E]"

text \<open>
  The move in a compass direction, as \<open>MoveDirection\<close> dispatches it: up is north, left
  is west.
\<close>

fun Move :: "direction \<Rightarrow> Maze \<Rightarrow> error option result \<times> Maze" where
  "Move N m = MoveUp m"
| "Move S m = MoveDown m"
| "Move E m = MoveRight m"
| "Move W m = MoveLeft m"

subsection \<open>Package \<open>math/rand\<close> and the order of a \<open>range\<close> over a map\<close>

text \<open>
  A random source is the list of the raw numbers it will draw, one for each call of \<open>Intn\<close>;
  a source that has run out draws 0. \<open>Intn n\<close> reduces the number drawn to \<open>[0, n)\<close>
  and panics for \<open>n \<le> 0\<close>. \<open>Perm n\<close> is the loop of \<open>math/rand\<close>:
  \<open>for i := 0; i < n; i++ { j := r.Intn(i + 1); m[i] = m[j]; m[j] = i }\<close>
  on \<open>m := make([]int, n)\<close>.
\<close>

type_synonym rand = "nat list"

fun next_draw :: "rand \<Rightarrow> nat \<times> rand" where
  "next_draw [] = (0, [])"
| "next_draw (v # r) = (v, r)"

definition Intn :: "int \<Rightarrow> rand \<Rightarrow> (int \<times> rand) result" where
  "Intn n r =
     (if n \<le> 0 then Panic
      else case next_draw r of (v, r') \<Rightarrow> Returned (int v mod n, r'))"

definition perm_step :: "nat \<Rightarrow> nat list \<times> rand \<Rightarrow> nat list \<times> rand" where
  "perm_step i = (\<lambda>(m, r).
     case next_draw r of (v, r') \<Rightarrow>
       (let j = v mod (i + 1) in ((m[i := m ! j])[j := i], r')))"

definition Perm :: "nat \<Rightarrow> rand \<Rightarrow> nat list \<times> rand" where
  "Perm n r = fold perm_step [0..<n] (replicate n 0, r)"

text \<open>
  Go does not specify the order in which \<open>range\<close> visits the entries of a map, and the
  runtime starts every \<open>range\<close> at a random place. The entries of a map are kept as an
  association list; a \<open>range\<close> visits them in an order that the runtime draws from a
  source of its own.
\<close>

fun put :: "'k \<Rightarrow> 'v \<Rightarrow> ('k \<times> 'v) list \<Rightarrow> ('k \<times> 'v) list" where
  "put k v [] = [(k, v)]"
| "put k v ((k', v') # al) = (if k = k' then (k, v) # al else (k', v') # put k v al)"

fun del :: "'k \<Rightarrow> ('k \<times> 'v) list \<Rightarrow> ('k \<times> 'v) list" where
  "del k [] = []"
| "del k ((k', v') # al) = (if k = k' then del k al else (k', v') # del k al)"

definition go_range :: "'a list \<Rightarrow> rand \<Rightarrow> 'a list \<times> rand" where
  "go_range al itr = (case Perm (length al) itr of (p, itr') \<Rightarrow> (map (\<lambda>i. al ! i) p, itr'))"

subsection \<open>Empty and full mazes\<close>

text \<open>
  \<open>emptyMaze\<close> and \<open>fullMaze\<close> read the sizes from the configuration; here they are
  parameters. \<open>make\<close> panics on a negative length; \<open>make([]Room, xSize)\<close> runs once for
  each row.
\<close>

definition Coordinate0 :: Coordinate where
  "Coordinate0 = \<lparr>X = 0, Y = 0\<rparr>"

definition emptyMaze :: "int \<Rightarrow> int \<Rightarrow> Maze result" where
  "emptyMaze xSize ySize =
     (if ySize < 0 then Panic
      else if 0 < ySize \<and> xSize < 0 then Panic
      else Returned
        \<lparr>rooms = replicate (nat ySize) (replicate (nat xSize) Room0),
         start = Coordinate0, endp = Coordinate0, icarus = Coordinate0, StepsTaken = 0\<rparr>)"

definition Survey1 :: Survey where
  "Survey1 = \<lparr>Top = True, Right = True, Bottom = True, Left = True\<rparr>"

definition fullMaze :: "int \<Rightarrow> int \<Rightarrow> Maze result" where
  "fullMaze xSize ySize =
     rbind (emptyMaze xSize ySize) (\<lambda>z.
       Returned
         (fold (\<lambda>y. fold (\<lambda>x. room_upd (\<lambda>r. r\<lparr>Walls := Survey1\<rparr>) (Some (x, y)))
                  [0..<nat xSize])
            [0..<nat ySize] z))"

subsection \<open>Recursive backtracking\<close>

text \<open>
  \<open>carvePassagesFrom\<close> calls itself inside its loop over the four directions. The model
  bounds the depth of the calls by its first argument; \<open>carve_range\<close> is the loop over
  what is left of \<open>rand.Perm(4)\<close>. The state is the global random source and the maze.
\<close>

fun carvePassagesFrom :: "nat \<Rightarrow> int \<Rightarrow> int \<Rightarrow> rand \<times> Maze \<Rightarrow> (rand \<times> Maze) result"
  and carve_range :: "nat \<Rightarrow> nat list \<Rightarrow> int \<Rightarrow> int \<Rightarrow> rand \<times> Maze \<Rightarrow> (rand \<times> Maze) result"
where
  "carvePassagesFrom 0 x y s = NoFuel"
| "carvePassagesFrom (Suc k) x y (r, m) =
     (case Perm 4 r of (p, r') \<Rightarrow> carve_range k p x y (r', m))"
| "carve_range k [] x y s = Returned s"
| "carve_range k (i # is) x y (r, m) =
     (if i < length DIRECTIONS then
        (let d = DIRECTIONS ! i; nx = x + DX d; ny = y + DY d in
         rbind (GetRoom m x y) (\<lambda>(croom, _).
         rbind (GetRoom m nx ny) (\<lambda>(room, err).
           if err = None \<and> \<not> Visited (room_at m room) then
             rbind
               (carvePassagesFrom k nx ny
                  (r, room_upd (\<lambda>q. q\<lparr>Visited := True\<rparr>) room
                        (room_upd (RmWall (OPPOSITE d)) room
                           (room_upd (RmWall d) croom m))))
               (carve_range k is x y)
           else carve_range k is x y (r, m))))
      else Panic)"

subsection \<open>Kruskal's algorithm\<close>

text \<open>
  \<open>type bitmap map[*mazelib.Room]*tree\<close> is keyed by room pointers. A pointer into the
  maze is \<open>InMaze x y\<close>; every zero room that \<open>GetRoom\<close> allocates outside the maze has a
  pointer of its own, \<open>Outside k\<close> for the \<open>k\<close>-th. The tree nodes live in a heap: a node
  is a number, \<open>parents\<close> holds the \<open>parent\<close> fields that are not \<open>nil\<close>.
\<close>

datatype roomkey = InMaze nat nat | Outside nat

record forest =
  kmaze :: Maze
  trees :: "(roomkey \<times> nat) list"
  parents :: "(nat \<times> nat) list"
  allocated :: nat
  outside :: nat

text \<open>The key of the pointer a \<open>GetRoom\<close> call returned.\<close>

fun key_of :: "roomptr \<Rightarrow> forest \<Rightarrow> roomkey \<times> forest" where
  "key_of (Some (x, y)) s = (InMaze x y, s)"
| "key_of None s = (Outside (outside s), s\<lparr>outside := outside s + 1\<rparr>)"

text \<open>\<open>if trees[k] == nil { trees[k] = &tree{} }\<close>, and the value of \<open>trees[k]\<close> after it.\<close>

definition tree_of :: "roomkey \<Rightarrow> forest \<Rightarrow> nat \<times> forest" where
  "tree_of k s =
     (case map_of (trees s) k of
        Some t \<Rightarrow> (t, s)
      | None \<Rightarrow>
          (allocated s,
           s\<lparr>trees := put k (allocated s) (trees s), allocated := allocated s + 1\<rparr>))"

text \<open>
  \<open>root\<close> follows the parent pointers in a loop without a bound; the model bounds the
  number of its iterations by the first argument.
\<close>

fun root :: "nat \<Rightarrow> (nat \<times> nat) list \<Rightarrow> nat \<Rightarrow> nat result" where
  "root 0 ps t = NoFuel"
| "root (Suc k) ps t = (case map_of ps t of None \<Rightarrow> Returned t | Some q \<Rightarrow> root k ps q)"

definition isConnected :: "nat \<Rightarrow> (nat \<times> nat) list \<Rightarrow> nat \<Rightarrow> nat \<Rightarrow> bool result" where
  "isConnected k ps cr nr =
     rbind (root k ps cr) (\<lambda>a. rbind (root k ps nr) (\<lambda>b. Returned (a = b)))"

definition connect :: "nat \<Rightarrow> (nat \<times> nat) list \<Rightarrow> nat \<Rightarrow> nat \<Rightarrow> (nat \<times> nat) list result" where
  "connect k ps cr nr = rbind (root k ps nr) (\<lambda>b. Returned (put b cr ps))"

text \<open>The body of the second loop of \<open>kruskal\<close>, for the edge \<open>(x, y, d)\<close>.\<close>

definition kruskal_edge :: "nat \<Rightarrow> int \<times> int \<times> direction \<Rightarrow> forest \<Rightarrow> forest result" where
  "kruskal_edge k = (\<lambda>(x, y, d) s.
     let nx = x + DX d; ny = y + DY d in
     rbind (GetRoom (kmaze s) x y) (\<lambda>(cr, _).
       case key_of cr s of (kc, s1) \<Rightarrow>
       case tree_of kc s1 of (tc, s2) \<Rightarrow>
       rbind (GetRoom (kmaze s2) nx ny) (\<lambda>(nr, _).
         case key_of nr s2 of (kn, s3) \<Rightarrow>
         case tree_of kn s3 of (tn, s4) \<Rightarrow>
         rbind (isConnected k (parents s4) tc tn) (\<lambda>c.
           if c then Returned s4
           else
             rbind (connect k (parents s4) tc tn) (\<lambda>ps.
               Returned
                 (s4\<lparr>parents := ps,
                    kmaze := room_upd (RmWall (OPPOSITE d)) nr
                               (room_upd (RmWall d) cr (kmaze s4))\<rparr>))))))"

fun kruskal_loop :: "nat \<Rightarrow> (int \<times> int \<times> direction) list \<Rightarrow> nat list \<Rightarrow> forest \<Rightarrow> forest result" where
  "kruskal_loop k edges [] s = Returned s"
| "kruskal_loop k edges (i # is) s =
     (if i < length edges
      then rbind (kruskal_edge k (edges ! i) s) (kruskal_loop k edges is)
      else Panic)"

text \<open>
  The first loop of \<open>kruskal\<close>: for every \<open>y\<close> of \<open>r.Perm(m.Height())\<close>, for every \<open>x\<close> of a
  new \<open>r.Perm(m.Width())\<close>, for every \<open>d\<close> of \<open>DIRECTIONS[0:2]\<close>, append \<open>{x, y, d}\<close>.
\<close>

fun kruskal_edges ::
  "Maze \<Rightarrow> nat list \<Rightarrow> rand \<Rightarrow> (int \<times> int \<times> direction) list \<Rightarrow>
   ((int \<times> int \<times> direction) list \<times> rand) result" where
  "kruskal_edges m [] r edges = Returned (edges, r)"
| "kruskal_edges m (y # ys) r edges =
     rbind (Width m) (\<lambda>w.
       case Perm (nat w) r of (xs, r') \<Rightarrow>
         kruskal_edges m ys r'
           (edges @ concat (map (\<lambda>x. map (\<lambda>d. (int x, int y, d)) (take 2 DIRECTIONS)) xs)))"

text \<open>
  \<open>kruskal\<close> seeds a source of its own with a number below 99 that it draws from the
  global source. \<open>NewSource\<close> gives the numbers that the source of a seed draws.
\<close>

definition kruskal :: "nat \<Rightarrow> (nat \<Rightarrow> rand) \<Rightarrow> rand \<times> Maze \<Rightarrow> (rand \<times> Maze) result" where
  "kruskal k NewSource = (\<lambda>(g, m).
     rbind (Intn 99 g) (\<lambda>(seed, g').
       case Perm (nat (Height m)) (NewSource (nat seed)) of (ys, r1) \<Rightarrow>
       rbind (kruskal_edges m ys r1 []) (\<lambda>(edges, r2).
         case Perm (length edges) r2 of (p, r3) \<Rightarrow>
         rbind
           (kruskal_loop k edges p
              \<lparr>kmaze = m, trees = [], parents = [], allocated = 0, outside = 0\<rparr>)
           (\<lambda>s. Returned (g', kmaze s)))))"

subsection \<open>Prim's algorithm\<close>

text \<open>
  \<open>neighbors\<close> fills a map from room pointers to coordinates, north, west, south, east;
  only rooms of the maze get an entry.
\<close>

definition neighbors :: "Maze \<Rightarrow> int \<Rightarrow> int \<Rightarrow> (roomptr \<times> int \<times> int) list result" where
  "neighbors m x y =
     rbind (GetRoom m x (y - 1)) (\<lambda>(room, err).
       let rooms1 = (if err = None then put room (x, y - 1) [] else []) in
       rbind (GetRoom m (x - 1) y) (\<lambda>(room, err).
         let rooms2 = (if err = None then put room (x - 1, y) rooms1 else rooms1) in
         rbind (GetRoom m x (y + 1)) (\<lambda>(room, err).
           let rooms3 = (if err = None then put room (x, y + 1) rooms2 else rooms2) in
           rbind (GetRoom m (x + 1) y) (\<lambda>(room, err).
             let rooms4 = (if err = None then put room (x + 1, y) rooms3 else rooms3) in
             Returned rooms4))))"

definition direction :: "int \<Rightarrow> int \<Rightarrow> int \<Rightarrow> int \<Rightarrow> direction" where
  "direction x y nx ny =
     (if x < nx then E else if x > nx then W else if y < ny then S else N)"

text \<open>
  The state of \<open>prim\<close>: the maze, the maps \<open>frontiers\<close> and \<open>in\<close> (here \<open>inn\<close>), the global
  random source and the source of the orders of the \<open>range\<close> loops. \<open>prim\<close> starts from a
  maze without walls, where \<open>RmWall\<close> leaves every flag as it is; \<open>joined\<close> lists the
  calls \<open>r.RmWall(d)\<close> of the first inner loop, the coordinate of \<open>r\<close> with \<open>d\<close>. It is
  no variable of the source and nothing reads it.
\<close>

record prim_state =
  pmaze :: Maze
  frontiers :: "(roomptr \<times> int \<times> int) list"
  inn :: "roomptr \<Rightarrow> bool"
  rnd :: rand
  itr :: rand
  joined :: "((int \<times> int) \<times> direction) list"

text \<open>\<open>randomRoom\<close>: the keys in the order of a \<open>range\<close>, and one of them by \<open>rand.Intn\<close>.\<close>

definition randomRoom :: "(roomptr \<times> int \<times> int) list \<Rightarrow> rand \<Rightarrow> rand \<Rightarrow> (roomptr \<times> rand \<times> rand) result" where
  "randomRoom f g it =
     (case go_range f it of (entries, it') \<Rightarrow>
        let rs = map fst entries in
        rbind (Intn (int (length rs)) g) (\<lambda>(i, g'). Returned (rs ! nat i, g', it')))"

text \<open>The first inner loop: the first neighbour in \<open>in\<close> is connected, then \<open>break\<close>.\<close>

fun connect_first ::
  "(roomptr \<Rightarrow> bool) \<Rightarrow> roomptr \<Rightarrow> int \<times> int \<Rightarrow> (roomptr \<times> int \<times> int) list \<Rightarrow>
   Maze \<times> ((int \<times> int) \<times> direction) list \<Rightarrow> Maze \<times> ((int \<times> int) \<times> direction) list" where
  "connect_first i r loc [] (m, js) = (m, js)"
| "connect_first i r loc ((n, neighbor) # ns) (m, js) =
     (if i n then
        (let d = direction (fst loc) (snd loc) (fst neighbor) (snd neighbor) in
         (room_upd (RmWall (OPPOSITE d)) n (room_upd (RmWall d) r m), js @ [(loc, d)]))
      else connect_first i r loc ns (m, js))"

text \<open>The second inner loop: the neighbours not in \<open>in\<close> become frontiers.\<close>

fun new_frontiers ::
  "(roomptr \<Rightarrow> bool) \<Rightarrow> (roomptr \<times> int \<times> int) list \<Rightarrow> (roomptr \<times> int \<times> int) list \<Rightarrow>
   (roomptr \<times> int \<times> int) list" where
  "new_frontiers i [] f = f"
| "new_frontiers i ((n, neighbor) # ns) f =
     new_frontiers i ns (if \<not> i n then put n neighbor f else f)"

text \<open>The body of the loop \<open>for len(frontiers) > 0\<close>.\<close>

definition prim_iter :: "prim_state \<Rightarrow> prim_state result" where
  "prim_iter s =
     rbind (randomRoom (frontiers s) (rnd s) (itr s)) (\<lambda>(r, g, it1).
       case map_of (frontiers s) r of
         None \<Rightarrow> Panic
       | Some loc \<Rightarrow>
           (let i = (inn s)(r := True); f = del r (frontiers s) in
            rbind (neighbors (pmaze s) (fst loc) (snd loc)) (\<lambda>nbs.
              case go_range nbs it1 of (order1, it2) \<Rightarrow>
              case connect_first i r loc order1 (pmaze s, joined s) of (m, js) \<Rightarrow>
              case go_range nbs it2 of (order2, it3) \<Rightarrow>
                Returned
                  \<lparr>pmaze = m, frontiers = new_frontiers i order2 f, inn = i,
                   rnd = g, itr = it3, joined = js\<rparr>)))"

fun prim_loop :: "nat \<Rightarrow> prim_state \<Rightarrow> prim_state result" where
  "prim_loop 0 s = NoFuel"
| "prim_loop (Suc k) s =
     (if length (frontiers s) > 0 then rbind (prim_iter s) (prim_loop k) else Returned s)"

definition prim :: "nat \<Rightarrow> int \<Rightarrow> int \<Rightarrow> rand \<Rightarrow> rand \<Rightarrow> prim_state result" where
  "prim k xSize ySize g it =
     rbind (emptyMaze xSize ySize) (\<lambda>m.
     rbind (Width m) (\<lambda>w.
     rbind (Intn w g) (\<lambda>(x, g1).
     rbind (Intn (Height m) g1) (\<lambda>(y, g2).
     rbind (GetRoom m x y) (\<lambda>(room, _).
     rbind (neighbors m x y) (\<lambda>nbs.
       case go_range nbs it of (order, it1) \<Rightarrow>
         prim_loop k
           \<lparr>pmaze = m,
            frontiers = fold (\<lambda>(r, loc). put r loc) order (put room (x, y) []),
            inn = (\<lambda>_. False)(room := True),
            rnd = g2, itr = it1, joined = []\<rparr>))))))"

subsection \<open>Recursive division\<close>

definition HORIZONTAL :: int where
  "HORIZONTAL = 1"

definition VERTICAL :: int where
  "VERTICAL = 2"

text \<open>The third case of the \<open>switch\<close> calls \<open>rand.Intn(2)\<close>; the first two draw nothing.\<close>

definition chooseOrientation :: "int \<Rightarrow> int \<Rightarrow> rand \<Rightarrow> (int \<times> rand) result" where
  "chooseOrientation w h r =
     (if w < h then Returned (HORIZONTAL, r)
      else if w > h then Returned (VERTICAL, r)
      else rbind (Intn 2 r) (\<lambda>(v, r').
             Returned (if v = 0 then HORIZONTAL else VERTICAL, r')))"

text \<open>
  The wall loops of \<open>divide\<close> and the border loops of \<open>recursiveDivision\<close> call
  \<open>GetRoom\<close>, drop its error and call \<open>AddWall\<close> on the room it returned, for one
  coordinate after the other.
\<close>

fun add_walls :: "direction \<Rightarrow> (int \<times> int) list \<Rightarrow> Maze \<Rightarrow> Maze result" where
  "add_walls d [] m = Returned m"
| "add_walls d ((wx, wy) # cs) m =
     rbind (GetRoom m wx wy) (\<lambda>(room, _). add_walls d cs (room_upd (AddWall d) room m))"

text \<open>What \<open>Intn\<close> returns lies in \<open>[0, n)\<close>; the recursion of \<open>divide\<close> ends for that reason.\<close>

lemma Intn_bounds: "Intn n r = Returned (v, r') \<Longrightarrow> 0 \<le> v \<and> v < n"
  by (auto simp: Intn_def split: if_splits prod.splits)

function divide :: "int \<Rightarrow> int \<Rightarrow> int \<Rightarrow> int \<Rightarrow> int \<Rightarrow> rand \<times> Maze \<Rightarrow> (rand \<times> Maze) result" where
  "divide x y width height orientation (r, m) =
     (if width < 2 \<or> height < 2 then Returned (r, m)
      else if orientation = HORIZONTAL then
        rbind (if height > 2
               then rbind (Intn (height - 2) r) (\<lambda>(v, r'). Returned (y + v, r'))
               else Returned (y, r)) (\<lambda>(wy, r1).
        rbind (Intn width r1) (\<lambda>(v, r2).
          let px = x + v in
          rbind (add_walls S (map (\<lambda>wx. (wx, wy)) (filter (\<lambda>wx. wx \<noteq> px) [x..x + width - 1])) m)
            (\<lambda>m1.
          let h = wy - y + 1 in
          rbind (chooseOrientation width h r2) (\<lambda>(o1, r3).
          rbind (divide x y width h o1 (r3, m1)) (\<lambda>(r4, m2).
          let h = y + height - wy - 1 in
          rbind (chooseOrientation width h r4) (\<lambda>(o2, r5).
            divide x (wy + 1) width h o2 (r5, m2)))))))
      else
        rbind (if width > 2
               then rbind (Intn (width - 2) r) (\<lambda>(v, r'). Returned (x + v, r'))
               else Returned (x, r)) (\<lambda>(wx, r1).
        rbind (Intn height r1) (\<lambda>(v, r2).
          let py = y + v in
          rbind (add_walls E (map (\<lambda>wy. (wx, wy)) (filter (\<lambda>wy. wy \<noteq> py) [y..y + height - 1])) m)
            (\<lambda>m1.
          let w = wx - x + 1 in
          rbind (chooseOrientation w height r2) (\<lambda>(o1, r3).
          rbind (divide x y w height o1 (r3, m1)) (\<lambda>(r4, m2).
          let w = x + width - wx - 1 in
          rbind (chooseOrientation w height r4) (\<lambda>(o2, r5).
            divide (wx + 1) y w height o2 (r5, m2))))))))"
  by pat_completeness auto
termination
  by (relation "measure (\<lambda>(x, y, width, height, orientation, s). nat width + nat height)")
    (auto simp: rbind_Returned split: if_splits dest!: Intn_bounds)

definition recursiveDivision :: "int \<Rightarrow> int \<Rightarrow> rand \<Rightarrow> (rand \<times> Maze) result" where
  "recursiveDivision xSize ySize r =
     rbind (emptyMaze xSize ySize) (\<lambda>m.
     rbind (Width m) (\<lambda>w.
     rbind (chooseOrientation w (Height m) r) (\<lambda>(orientation, r1).
     rbind (divide 0 0 w (Height m) orientation (r1, m)) (\<lambda>(r2, m1).
     rbind (Width m1) (\<lambda>w.
       let h = Height m1 in
       rbind (add_walls S (map (\<lambda>x. (x, h - 1)) [0..w - 1]) m1) (\<lambda>m2.
       rbind (add_walls E (map (\<lambda>y. (w - 1, y)) [0..h - 1]) m2) (\<lambda>m3.
         Returned (r2, m3))))))))"

section \<open>Notions the properties are stated with\<close>

text \<open>A sequence of moves; a move that fails leaves the maze as it is.\<close>

definition moves :: "direction list \<Rightarrow> Maze \<Rightarrow> Maze" where
  "moves ds m = fold (\<lambda>d m'. snd (Move d m')) ds m"

text \<open>A grid: at least one row, and every row as long as the first.\<close>

definition grid :: "Maze \<Rightarrow> bool" where
  "grid m = (case rooms m of [] \<Rightarrow> False | r # rs \<Rightarrow> list_all (\<lambda>q. length q = length r) rs)"

text \<open>
  For every pair of adjacent rooms, the two flags that face each other: east of a room
  with west of its right neighbour, south of a room with north of the room below.
\<close>

definition wall_pairs :: "Maze \<Rightarrow> (bool \<times> bool) list" where
  "wall_pairs m =
     concat (map (\<lambda>y. concat (map (\<lambda>x.
         (if Suc x < length (rooms m ! y)
          then [(Right (Walls (rooms m ! y ! x)), Left (Walls (rooms m ! y ! Suc x)))]
          else []) @
         (if Suc y < length (rooms m) \<and> x < length (rooms m ! Suc y)
          then [(Bottom (Walls (rooms m ! y ! x)), Top (Walls (rooms m ! Suc y ! x)))]
          else []))
       [0..<length (rooms m ! y)])) [0..<length (rooms m)])"

definition symmetric_walls :: "Maze \<Rightarrow> bool" where
  "symmetric_walls m = list_all (\<lambda>(a, b). a = b) (wall_pairs m)"

text \<open>The number of pairs of adjacent rooms with no wall between them, on either side.\<close>

definition passages :: "Maze \<Rightarrow> nat" where
  "passages m = length (filter (\<lambda>(a, b). \<not> a \<and> \<not> b) (wall_pairs m))"






text \<open>
  A session for the examples: the maze of two by two rooms without walls that
  \<open>emptyMaze\<close> returns, and the same with the treasure in the room \<open>(1, 1)\<close>.
\<close>

definition open22 :: Maze where
  "open22 =
     \<lparr>rooms = [[Room0, Room0], [Room0, Room0]],
      start = Coordinate0, endp = Coordinate0, icarus = Coordinate0, StepsTaken = 0\<rparr>"

definition nav22 :: Maze where
  "nav22 =
     \<lparr>rooms = [[Room0, Room0], [Room0, Room0\<lparr>Treasure := True\<rparr>]],
      start = Coordinate0, endp = \<lparr>X = 1, Y = 1\<rparr>, icarus = Coordinate0, StepsTaken = 0\<rparr>"

text \<open>
  The maze of two rooms in a row with all walls that \<open>fullMaze\<close> returns, with the
  treasure in the room \<open>(1, 0)\<close>.
\<close>

definition walled21 :: Maze where
  "walled21 =
     \<lparr>rooms = [[Room0\<lparr>Walls := Survey1\<rparr>, Room0\<lparr>Treasure := True, Walls := Survey1\<rparr>]],
      start = Coordinate0, endp = \<lparr>X = 1, Y = 0\<rparr>, icarus = Coordinate0, StepsTaken = 0\<rparr>"

text \<open>
  The grid of one room: with all walls, as \<open>fullMaze\<close> returns it; without walls, as
  \<open>emptyMaze\<close> returns it; and with the south and the east wall only. \<open>no_draws\<close> is a
  \<open>NewSource\<close> whose sources draw zeros.
\<close>

definition full11 :: Maze where
  "full11 =
     \<lparr>rooms = [[Room0\<lparr>Walls := Survey1\<rparr>]],
      start = Coordinate0, endp = Coordinate0, icarus = Coordinate0, StepsTaken = 0\<rparr>"

definition open11 :: Maze where
  "open11 =
     \<lparr>rooms = [[Room0]],
      start = Coordinate0, endp = Coordinate0, icarus = Coordinate0, StepsTaken = 0\<rparr>"


definition border11 :: Maze where
  "border11 =
     \<lparr>rooms = [[Room0\<lparr>Walls := \<lparr>Top = False, Right = True, Bottom = True, Left = False\<rparr>\<rparr>]],
      start = Coordinate0, endp = Coordinate0, icarus = Coordinate0, StepsTaken = 0\<rparr>"

section \<open>Navigation: the properties\<close>

lemma Width_cases: "Width m = Panic \<or> (\<exists>w. Width m = Returned w \<and> 0 \<le> w)"
  by (auto simp: Width_def split: list.splits)

lemma GetRoom_cases:
  "GetRoom m x y = Panic \<or> GetRoom m x y = Returned (None, Some ErrOutside)
   \<or> GetRoom m x y = Returned (Some (nat x, nat y), None)"
  using Width_cases [of m] by (auto simp: GetRoom_def split: if_splits)


lemma GetRoom_grid:
  assumes "grid m"
  shows "GetRoom m x y \<noteq> Panic \<and> GetRoom m x y \<noteq> NoFuel"
proof (cases "rooms m")
  case Nil
  with assms show ?thesis by (simp add: grid_def)
next
  case (Cons r rs)
  with assms have len: "\<And>k. k < length (rooms m) \<Longrightarrow> length (rooms m ! k) = length r"
    by (auto simp: grid_def list_all_length nth_Cons split: nat.splits)
  from Cons have w: "Width m = Returned (int (length r))"
    by (simp add: Width_def)
  show ?thesis
    using len [of "nat y"] by (auto simp: GetRoom_def w Height_def)
qed

lemma move_by_succeeds:
  "fst (move_by b dx dy m) = Returned None \<longleftrightarrow>
     (\<exists>s. LookAround m = Returned (s, None) \<and> \<not> b s)
      \<and> (\<exists>p. GetRoom m (X (icarus m) + dx) (Y (icarus m) + dy) = Returned (p, None))"
  by (auto simp: move_by_def split: result.splits option.splits prod.splits)

lemma move_by_state:
  "fst (move_by b dx dy m) = Returned None \<Longrightarrow>
   snd (move_by b dx dy m) =
     m\<lparr>icarus := \<lparr>X = X (icarus m) + dx, Y = Y (icarus m) + dy\<rparr>,
       StepsTaken := StepsTaken m + 1\<rparr>"
  by (auto simp: move_by_def split: result.splits option.splits prod.splits if_splits)

lemma move_by_failed:
  "fst (move_by b dx dy m) \<noteq> Returned None \<Longrightarrow> snd (move_by b dx dy m) = m"
  by (auto simp: move_by_def split: result.splits option.splits prod.splits if_splits)

lemma move_by_wall:
  "LookAround m = Returned (s, None) \<Longrightarrow> b s \<Longrightarrow>
   move_by b dx dy m = (Returned (Some ErrWall), m)"
  by (simp add: move_by_def)

lemma move_by_outside:
  "LookAround m = Returned (s, None) \<Longrightarrow> \<not> b s \<Longrightarrow>
   GetRoom m (X (icarus m) + dx) (Y (icarus m) + dy) = Returned (p, Some e) \<Longrightarrow>
   move_by b dx dy m = (Returned (Some e), m)"
  by (simp add: move_by_def)

lemma move_by_endp: "endp (snd (move_by b dx dy m)) = endp m"
  by (auto simp: move_by_def split: result.splits option.splits prod.splits)

lemma wall_in_fields:
  "wall_in N = Top" "wall_in S = Bottom" "wall_in E = Right" "wall_in W = Left"
  by (simp_all add: fun_eq_iff)

lemma Move_move_by:
  "Move d m = move_by (wall_in d) (DX d) (DY d) m"
  by (cases d) (simp_all add: MoveUp_def MoveDown_def MoveLeft_def MoveRight_def wall_in_fields)

lemma GetRoom_grid_Returned:
  assumes "grid m"
  shows "\<exists>p e. GetRoom m x y = Returned (p, e)"
  using GetRoom_grid [OF assms, of x y] by (cases "GetRoom m x y") auto

lemma LookAround_grid:
  assumes "grid m"
  shows "\<exists>s e. LookAround m = Returned (s, e)"
  using GetRoom_grid_Returned [OF assms, of "X (icarus m)" "Y (icarus m)"]
  by (auto simp: LookAround_def Discover_def split: option.splits)

lemma move_by_grid:
  assumes "grid m"
  shows "\<exists>e. fst (move_by b dx dy m) = Returned e"
proof -
  obtain s e where l: "LookAround m = Returned (s, e)"
    using LookAround_grid [OF assms] by blast
  obtain p e' where t: "GetRoom m (X (icarus m) + dx) (Y (icarus m) + dy) = Returned (p, e')"
    using GetRoom_grid_Returned [OF assms] by blast
  show ?thesis
    by (simp add: move_by_def l t split: option.splits)
qed

lemma moves_endp: "endp (moves ds m) = endp m"
  unfolding moves_def
  by (induction ds arbitrary: m) (simp_all add: Move_move_by move_by_endp)

lemma LookAround_error:
  "LookAround m = Returned (s, Some e) \<longleftrightarrow> icarus m = endp m \<and> s = Survey0 \<and> e = ErrVictory"
proof -
  have eq: "icarus m = endp m \<longleftrightarrow> X (endp m) = X (icarus m) \<and> Y (endp m) = Y (icarus m)"
    by (cases "icarus m"; cases "endp m") auto
  show ?thesis
    unfolding eq
    by (auto simp: LookAround_def Discover_def rbind_Returned split: option.splits)
qed

text \<open>The example sessions are what the program builds.\<close>

lemma nav22_built:
  "emptyMaze 2 2 = Returned open22 \<and> SetTreasure 1 1 open22 = (Returned None, nav22)"
  by code_simp

lemma walled21_built:
  "rbind (fullMaze 2 1) (\<lambda>z. Returned (SetTreasure 1 0 z)) = Returned (Returned None, walled21)"
  by code_simp

text \<open>
  Claim C1, amended. For every maze and every direction \<open>d\<close>, the move in direction \<open>d\<close>
  succeeds if and only if \<open>LookAround\<close> returns a survey without an error (Icarus is not
  at the treasure) that has no wall in direction \<open>d\<close>, and \<open>GetRoom\<close> finds the
  adjacent coordinate inside the maze. A move that succeeds changes the position to
  exactly the adjacent coordinate one step in direction \<open>d\<close> and adds exactly 1 to
  \<open>StepsTaken\<close>; it changes nothing else.
\<close>

theorem move_succeeds_iff:
  "(fst (Move d m) = Returned None \<longleftrightarrow>
      (\<exists>s. LookAround m = Returned (s, None) \<and> \<not> wall_in d s)
      \<and> (\<exists>p. GetRoom m (X (icarus m) + DX d) (Y (icarus m) + DY d) = Returned (p, None)))
   \<and> (fst (Move d m) = Returned None \<longrightarrow>
        snd (Move d m) =
          m\<lparr>icarus := \<lparr>X = X (icarus m) + DX d, Y = Y (icarus m) + DY d\<rparr>,
            StepsTaken := StepsTaken m + 1\<rparr>)"
  unfolding Move_move_by using move_by_succeeds move_by_state by blast

theorem move_succeeds_iff_witness:
  "fst (Move E nav22) = Returned None
   \<and> snd (Move E nav22) = nav22\<lparr>icarus := \<lparr>X = 1, Y = 0\<rparr>, StepsTaken := 1\<rparr>"
proof -
  have ok: "fst (Move E nav22) = Returned None"
    by code_simp
  from move_succeeds_iff [of E nav22] ok
  have "snd (Move E nav22) =
          nav22\<lparr>icarus := \<lparr>X = X (icarus nav22) + DX E, Y = Y (icarus nav22) + DY E\<rparr>,
            StepsTaken := StepsTaken nav22 + 1\<rparr>"
    by blast
  then show ?thesis
    using ok by (simp add: nav22_def Coordinate0_def)
qed

text \<open>
  Claim C1 as stated fails: in the maze without walls that \<open>emptyMaze\<close> returns, with the
  treasure placed at \<open>(1, 1)\<close> and Icarus at \<open>(0, 0)\<close>, the survey reports no wall to the
  west, and the move to the west fails all the same, with the error of \<open>GetRoom\<close>.
\<close>

theorem move_survey_counterexample:
  "emptyMaze 2 2 = Returned open22
   \<and> SetTreasure 1 1 open22 = (Returned None, nav22)
   \<and> LookAround nav22 = Returned (Survey0, None)
   \<and> \<not> wall_in W Survey0
   \<and> Move W nav22 = (Returned (Some ErrOutside), nav22)"
  by code_simp

text \<open>
  Claim C6. Every move that does not succeed leaves the whole maze value, so the position
  and the step counter, unchanged. A move against a wall that the survey reports returns
  the error "Can't walk through walls"; a move without such a wall to a coordinate that
  \<open>GetRoom\<close> rejects returns the error "room outside of maze boundaries"; and in a grid
  (at least one row, all rows of one length) every move returns, with an error or
  without.
\<close>

theorem failed_move_unchanged:
  "(fst (Move d m) \<noteq> Returned None \<longrightarrow> snd (Move d m) = m)
   \<and> ((\<exists>s. LookAround m = Returned (s, None) \<and> wall_in d s) \<longrightarrow>
        Move d m = (Returned (Some ErrWall), m))
   \<and> ((\<exists>s. LookAround m = Returned (s, None) \<and> \<not> wall_in d s) \<and>
       (\<exists>p e. GetRoom m (X (icarus m) + DX d) (Y (icarus m) + DY d) = Returned (p, Some e)) \<longrightarrow>
        Move d m = (Returned (Some ErrOutside), m))
   \<and> (grid m \<longrightarrow> (\<exists>e. fst (Move d m) = Returned e))"
proof (intro conjI impI)
  assume "fst (Move d m) \<noteq> Returned None"
  then show "snd (Move d m) = m"
    unfolding Move_move_by by (rule move_by_failed)
next
  assume "\<exists>s. LookAround m = Returned (s, None) \<and> wall_in d s"
  then show "Move d m = (Returned (Some ErrWall), m)"
    unfolding Move_move_by by (auto intro: move_by_wall)
next
  assume a: "(\<exists>s. LookAround m = Returned (s, None) \<and> \<not> wall_in d s) \<and>
       (\<exists>p e. GetRoom m (X (icarus m) + DX d) (Y (icarus m) + DY d) = Returned (p, Some e))"
  then obtain s where s: "LookAround m = Returned (s, None)" "\<not> wall_in d s"
    by blast
  from a obtain p e where
    "GetRoom m (X (icarus m) + DX d) (Y (icarus m) + DY d) = Returned (p, Some e)"
    by blast
  moreover from this have "e = ErrOutside"
    using GetRoom_cases [of m "X (icarus m) + DX d" "Y (icarus m) + DY d"] by auto
  ultimately show "Move d m = (Returned (Some ErrOutside), m)"
    unfolding Move_move_by using s by (auto intro: move_by_outside)
next
  assume g: "grid m"
  show "\<exists>e. fst (Move d m) = Returned e"
    unfolding Move_move_by using g by (rule move_by_grid)
qed

theorem failed_move_unchanged_witness:
  "(fst (Move W nav22) \<noteq> Returned None \<and> snd (Move W nav22) = nav22)
   \<and> (LookAround walled21 = Returned (Survey1, None) \<and> wall_in E Survey1
      \<and> Move E walled21 = (Returned (Some ErrWall), walled21))
   \<and> (LookAround nav22 = Returned (Survey0, None) \<and> \<not> wall_in W Survey0
      \<and> GetRoom nav22 (X (icarus nav22) + DX W) (Y (icarus nav22) + DY W)
          = Returned (None, Some ErrOutside)
      \<and> Move W nav22 = (Returned (Some ErrOutside), nav22))
   \<and> (grid nav22 \<and> fst (Move W nav22) = Returned (Some ErrOutside))"
proof -
  have a: "fst (Move W nav22) \<noteq> Returned None"
    by code_simp
  have b: "LookAround walled21 = Returned (Survey1, None)" "wall_in E Survey1"
    by code_simp+
  have c: "LookAround nav22 = Returned (Survey0, None)" "\<not> wall_in W Survey0"
    "GetRoom nav22 (X (icarus nav22) + DX W) (Y (icarus nav22) + DY W)
       = Returned (None, Some ErrOutside)"
    by code_simp+
  have d: "grid nav22"
    by code_simp
  have e: "fst (Move W nav22) = Returned (Some ErrOutside)"
    by code_simp
  from failed_move_unchanged [of W nav22] a c
  have "snd (Move W nav22) = nav22" "Move W nav22 = (Returned (Some ErrOutside), nav22)"
    by blast+
  moreover from failed_move_unchanged [of E walled21] b
  have "Move E walled21 = (Returned (Some ErrWall), walled21)"
    by blast
  ultimately show ?thesis
    using a b c d e by blast
qed

text \<open>
  Claim C7. \<open>LookAround\<close> returns \<open>ErrVictory\<close> if and only if the position of Icarus
  equals the position of the treasure. No move changes the position of the treasure, and
  after any sequence of moves that ends on it the next \<open>LookAround\<close> returns
  \<open>ErrVictory\<close>, whatever the path was.
\<close>

theorem victory_iff_at_goal:
  "((\<exists>s. LookAround m = Returned (s, Some ErrVictory)) \<longleftrightarrow> icarus m = endp m)
   \<and> endp (moves ds m) = endp m
   \<and> (icarus (moves ds m) = endp m \<longrightarrow>
        LookAround (moves ds m) = Returned (Survey0, Some ErrVictory))"
  using LookAround_error [of m] LookAround_error [of "moves ds m"] moves_endp [of ds m]
  by auto

theorem victory_iff_at_goal_witness:
  "icarus (moves [E, S] nav22) = endp nav22
   \<and> LookAround (moves [E, S] nav22) = Returned (Survey0, Some ErrVictory)
   \<and> icarus (moves [S, E] nav22) = endp nav22
   \<and> LookAround (moves [S, E] nav22) = Returned (Survey0, Some ErrVictory)
   \<and> icarus (moves [W, S, N, S, E] nav22) = endp nav22
   \<and> LookAround (moves [W, S, N, S, E] nav22) = Returned (Survey0, Some ErrVictory)"
proof -
  have a: "icarus (moves [E, S] nav22) = endp nav22"
    "icarus (moves [S, E] nav22) = endp nav22"
    "icarus (moves [W, S, N, S, E] nav22) = endp nav22"
    by code_simp+
  show ?thesis
    using a victory_iff_at_goal [of "moves [E, S] nav22" "[]"]
      victory_iff_at_goal [of nav22 "[E, S]"]
      victory_iff_at_goal [of nav22 "[S, E]"]
      victory_iff_at_goal [of nav22 "[W, S, N, S, E]"]
    by blast
qed



section \<open>The generators: what the code does on small grids\<close>

text \<open>
  Claim C2 does not hold for recursive division. \<open>divide\<close> calls \<open>AddWall\<close> on the
  room above (or left of) the wall only, never on the room on its other side. On the
  grid of two by two rooms, with a random source that draws zeros, \<open>recursiveDivision\<close>
  returns a maze in which the room \<open>(1, 0)\<close> has its south wall and the room \<open>(1, 1)\<close>
  below it has no north wall.
\<close>

theorem recursiveDivision_asymmetric:
  "rbind (recursiveDivision 2 2 []) (\<lambda>(r, m).
     Returned
       (symmetric_walls m,
        wall_in S (Walls (room_at m (Some (1, 0)))),
        wall_in N (Walls (room_at m (Some (1, 1))))))
   = Returned (False, True, False)"
  by code_simp

text \<open>
  Claim C3 does not hold. The neighbours are the entries of a Go map, and the loop that
  connects the new room visits them in the order of a \<open>range\<close>, which is not fixed. On the
  grid of two by two rooms, with the same draws of \<open>rand.Intn\<close> (start at \<open>(0, 0)\<close>, then
  the rooms \<open>(1, 0)\<close>, \<open>(0, 1)\<close>, \<open>(1, 1)\<close>, \<open>(0, 0)\<close>), the room \<open>(1, 1)\<close> has its northern
  and its western neighbour in \<open>in\<close>. When every \<open>range\<close> visits the entries in the order
  of their insertion it is connected to the north; when the one \<open>range\<close> over its
  neighbours starts at the second entry it is connected to the west.
\<close>

theorem prim_order_not_fixed:
  "rbind
     (prim 5 2 2 [0, 0, 2, 1, 1, 0]
        [0, 1, 0, 1, 2, 0, 1, 0, 1, 0, 1, 2, 0, 1, 0, 1, 0, 1, 0, 1, 0, 1, 0, 0, 1, 0, 1])
     (\<lambda>s. Returned (joined s))
   = Returned [((1, 0), W), ((0, 1), N), ((1, 1), N), ((0, 0), S)]
   \<and> rbind
     (prim 5 2 2 [0, 0, 2, 1, 1, 0]
        [0, 1, 0, 1, 2, 0, 1, 0, 1, 0, 1, 2, 0, 1, 0, 1, 0, 1, 0, 0, 0, 1, 0, 0, 1, 0, 1])
     (\<lambda>s. Returned (joined s))
   = Returned [((1, 0), W), ((0, 1), N), ((1, 1), W), ((0, 0), S)]"
  by code_simp

text \<open>
  Claim C5 does not hold. \<open>carvePassagesFrom\<close> never marks the room it starts from, so
  the search can come back to it through a second wall: on the full grid of two by two
  rooms, with the directions tried in the orders south first at \<open>(0, 0)\<close>, east first at
  \<open>(0, 1)\<close>, north first at \<open>(1, 1)\<close> and west at \<open>(1, 0)\<close>, all four inner walls are
  removed, not three. \<open>prim\<close> starts from the maze without walls and only removes walls,
  so the maze it returns has no wall at all: four open inner walls again, and here the
  four calls of \<open>RmWall\<close> in \<open>joined\<close> are for four different walls.
\<close>

theorem spanning_tree_violated:
  "rbind (fullMaze 2 2) (\<lambda>m.
     rbind
       (carvePassagesFrom 5 0 0
          ([0, 1, 2, 3, 0, 1, 2, 0, 0, 1, 2, 3, 0, 1, 2, 3, 0, 1, 2, 3], m))
       (\<lambda>(r, m'). Returned (passages m, passages m')))
   = Returned (0, 4)
   \<and> rbind (prim 5 2 2 [] []) (\<lambda>s. Returned (passages (pmaze s), joined s))
   = Returned (4, [((0, 1), N), ((1, 1), W), ((1, 0), S), ((0, 0), E)])"
  by code_simp

text \<open>
  Claim C8 does not hold. \<open>carvePassagesFrom\<close> sets \<open>Visited\<close> and never clears it (the
  source ends with the comment "TODO: reset visited flag of the rooms"). On the full
  grid of two rooms in a row every room is left with \<open>Visited\<close> set.
\<close>

theorem visited_not_reset:
  "rbind (fullMaze 2 1) (\<lambda>m.
     rbind (carvePassagesFrom 3 0 0 ([], m)) (\<lambda>(r, m').
       Returned (map (map Visited) (rooms m), map (map Visited) (rooms m'))))
   = Returned ([[False, False]], [[True, True]])"
  by code_simp

section \<open>The candidate edges of \<open>kruskal\<close>\<close>

text \<open>\<open>Perm n\<close> returns a permutation of the numbers below \<open>n\<close>, whatever is drawn.\<close>

lemma perm_step_inv:
  assumes "i < length m" and "mset (take i m) = mset [0..<i]"
  shows "length (fst (perm_step i (m, r))) = length m
         \<and> mset (take (Suc i) (fst (perm_step i (m, r)))) = mset [0..<Suc i]"
proof -
  obtain v r' where d: "next_draw r = (v, r')"
    by (cases "next_draw r")
  define j where "j = v mod (i + 1)"
  have j: "j \<le> i"
    unfolding j_def by (simp add: less_Suc_eq_le [symmetric])
  have st: "fst (perm_step i (m, r)) = (m[i := m ! j])[j := i]"
    by (simp add: perm_step_def d j_def Let_def)
  show ?thesis
  proof (cases "j = i")
    case True
    then have "(m[i := m ! j])[j := i] = m[i := i]"
      by simp
    then show ?thesis
      using assms by (simp add: st take_Suc_conv_app_nth)
  next
    case False
    with j have lt: "j < i" by simp
    have mem: "m ! j \<in># mset (take i m)"
    proof -
      have "j < length (take i m)" "take i m ! j = m ! j"
        using lt assms(1) by simp_all
      then show ?thesis
        by (metis nth_mem set_mset_mset)
    qed
    have "take (Suc i) ((m[i := m ! j])[j := i]) = (take i m)[j := i] @ [m ! j]"
    proof -
      have "(m[i := m ! j])[j := i] = (m[j := i])[i := m ! j]"
        using lt by (simp add: list_update_swap)
      moreover have "take (Suc i) ((m[j := i])[i := m ! j]) = take i (m[j := i]) @ [m ! j]"
        using assms(1) by (simp add: take_Suc_conv_app_nth)
      moreover have "take i (m[j := i]) = (take i m)[j := i]"
        using lt by (simp add: take_update_swap)
      ultimately show ?thesis by simp
    qed
    moreover have "mset ((take i m)[j := i]) = add_mset i (mset (take i m) - {#m ! j#})"
      using lt assms(1) by (simp add: mset_update)
    ultimately show ?thesis
      using mem assms by (simp add: st)
  qed
qed

lemma perm_fold_inv:
  assumes "k \<le> length m"
  shows "length (fst (fold perm_step [0..<k] (m, r))) = length m
         \<and> mset (take k (fst (fold perm_step [0..<k] (m, r)))) = mset [0..<k]"
  using assms
proof (induction k)
  case 0
  then show ?case by simp
next
  case (Suc k)
  obtain m' r' where f: "fold perm_step [0..<k] (m, r) = (m', r')"
    by (cases "fold perm_step [0..<k] (m, r)")
  from Suc f have ih: "length m' = length m" "mset (take k m') = mset [0..<k]"
    by simp_all
  with Suc.prems have "k < length m'" by simp
  from perm_step_inv [OF this ih(2), of r'] ih(1) show ?case
    by (simp add: f)
qed

lemma mset_Perm: "mset (fst (Perm n r)) = mset [0..<n]"
proof -
  let ?p = "fst (fold perm_step [0..<n] (replicate n 0, r))"
  have "length ?p = n"
    using perm_fold_inv [of n "replicate n 0" r, THEN conjunct1] by simp
  moreover have "mset (take n ?p) = mset [0..<n]"
    using perm_fold_inv [of n "replicate n 0" r, THEN conjunct2] by simp
  ultimately have "mset ?p = mset [0..<n]"
    by simp
  then show ?thesis
    by (simp add: Perm_def)
qed

lemma set_Perm: "set (fst (Perm n r)) = {0..<n}"
  using mset_Perm [of n r] by (metis mset_eq_setD set_upt)

lemma distinct_Perm: "distinct (fst (Perm n r))"
  using mset_Perm [of n r] by (metis distinct_upt mset_eq_imp_distinct_iff)















section \<open>Degenerate grids\<close>

lemma GetRoom_full11:
  "GetRoom full11 0 0 = Returned (Some (0, 0), None)"
  "GetRoom full11 0 (- 1) = Returned (None, Some ErrOutside)"
  "GetRoom full11 (- 1) 0 = Returned (None, Some ErrOutside)"
  "GetRoom full11 0 1 = Returned (None, Some ErrOutside)"
  "GetRoom full11 1 0 = Returned (None, Some ErrOutside)"
  by code_simp+

lemma carve_range_full11:
  assumes "\<forall>i\<in>set p. i < 4"
  shows "carve_range k p 0 0 (r, full11) = Returned (r, full11)"
  using assms
proof (induction p)
  case Nil
  then show ?case by simp
next
  case (Cons i p)
  then have "i = 0 \<or> i = 1 \<or> i = 2 \<or> i = 3"
    by auto
  then have "carve_range k (i # p) 0 0 (r, full11) = carve_range k p 0 0 (r, full11)"
    by (elim disjE) (simp_all add: DIRECTIONS_def GetRoom_full11)
  with Cons show ?case
    by simp
qed

lemma carve_full11:
  "carvePassagesFrom (Suc k) 0 0 (r, full11) = Returned (snd (Perm 4 r), full11)"
proof -
  have "\<forall>i\<in>set (fst (Perm 4 r)). i < 4"
    by (simp add: set_Perm)
  from carve_range_full11 [OF this] show ?thesis
    by (simp add: case_prod_beta)
qed

lemma Intn_1: "Intn 1 g = Returned (0, snd (next_draw g))"
  by (simp add: Intn_def case_prod_beta)

lemma Perm_0: "Perm 0 r = ([], r)"
  by (simp add: Perm_def)

lemma Perm_1: "Perm (Suc 0) r = ([0], snd (next_draw r))"
  by (simp add: Perm_def perm_step_def case_prod_beta)

lemma go_range_Nil: "go_range [] it = ([], it)"
  by (simp add: go_range_def Perm_0)

lemma go_range_single: "go_range [a] it = ([a], snd (next_draw it))"
  by (simp add: go_range_def Perm_1)

lemma open11_facts:
  "emptyMaze 1 1 = Returned open11"
  "Width open11 = Returned 1"
  "Height open11 = 1"
  "GetRoom open11 0 0 = Returned (Some (0, 0), None)"
  "neighbors open11 0 0 = Returned []"
  by code_simp+

lemma prim_11:
  "\<exists>s. prim (Suc (Suc k)) 1 1 g it = Returned s
       \<and> pmaze s = open11 \<and> frontiers s = [] \<and> joined s = []"
  by (simp add: prim_def open11_facts Intn_1 go_range_Nil go_range_single prim_iter_def
      randomRoom_def)

lemma divide_small:
  "width < 2 \<or> height < 2 \<Longrightarrow> divide x y width height orientation s = Returned s"
  by (cases s) (simp add: divide.simps)

lemma borders_11:
  "rbind (add_walls S (map (\<lambda>x. (x, 1 - 1)) [0..1 - 1]) open11)
     (\<lambda>m2. add_walls E (map (\<lambda>y. (1 - 1, y)) [0..1 - 1]) m2) = Returned border11"
  by code_simp

lemma recursiveDivision_11:
  "recursiveDivision 1 1 r = Returned (snd (next_draw r), border11)"
proof -
  obtain v r1 where d: "next_draw r = (v, r1)"
    by (cases "next_draw r")
  have c: "chooseOrientation 1 1 r
      = Returned (if int v mod 2 = 0 then HORIZONTAL else VERTICAL, r1)"
    by (simp add: chooseOrientation_def Intn_def d)
  show ?thesis
    using borders_11
    by (simp add: recursiveDivision_def open11_facts c divide_small d Let_def rbind_Returned
        del: upto.simps)
qed

lemma Perm_2: "fst (Perm 2 r) = [1, 0] \<or> fst (Perm 2 r) = [0, 1]"
proof -
  have two: "[0..<2] = [0, Suc 0]"
    by (simp add: upt_rec)
  obtain v r1 where a: "next_draw r = (v, r1)"
    by (cases "next_draw r")
  obtain v' r2 where b: "next_draw r1 = (v', r2)"
    by (cases "next_draw r1")
  have "v' mod 2 = 0 \<or> v' mod 2 = 1"
    by auto
  then show ?thesis
    by (auto simp: Perm_def two perm_step_def a b numeral_2_eq_2)
qed

lemma kruskal_edges_full11:
  "kruskal_edges full11 [0] r [] = Returned ([(0, 0, N), (0, 0, W)], snd (next_draw r))"
proof -
  have "Width full11 = Returned 1"
    by code_simp
  then show ?thesis
    by (simp add: Perm_1 DIRECTIONS_def)
qed

lemma kruskal_loop_full11:
  assumes "p = [1, 0] \<or> p = [0, 1]"
  shows "\<exists>s. kruskal_loop (Suc k) [(0, 0, N), (0, 0, W)] p
           \<lparr>kmaze = full11, trees = [], parents = [], allocated = 0, outside = 0\<rparr>
         = Returned s"
  using assms
  by (elim disjE)
    (simp_all add: kruskal_edge_def tree_of_def isConnected_def connect_def
      GetRoom_def Width_def Height_def full11_def Room0_def Survey0_def Survey1_def
      RmWall_def Let_def)

lemma kruskal_full11:
  "\<exists>g' m'. kruskal (Suc k) src (g, full11) = Returned (g', m')"
proof -
  obtain v g' where i: "Intn 99 g = Returned (int v mod 99, g')"
    by (cases "next_draw g") (simp add: Intn_def)
  have h: "nat (Height full11) = Suc 0"
    by (simp add: Height_def full11_def)
  define r2 where "r2 = snd (next_draw (snd (next_draw (src (nat (int v mod 99))))))"
  obtain p r3 where p: "Perm 2 r2 = (p, r3)"
    by (cases "Perm 2 r2")
  with Perm_2 [of r2] have "p = [1, 0] \<or> p = [0, 1]"
    by simp
  from kruskal_loop_full11 [OF this, of k] obtain s where
    "kruskal_loop (Suc k) [(0, 0, N), (0, 0, W)] p
       \<lparr>kmaze = full11, trees = [], parents = [], allocated = 0, outside = 0\<rparr> = Returned s"
    by blast
  then show ?thesis
    using p
    by (simp add: kruskal_def i h Perm_1 kruskal_edges_full11 r2_def numeral_2_eq_2
        del: kruskal_edges.simps)
qed

text \<open>
  Claim C9, amended. The code has no \<open>DegenerateGrid\<close> error and checks no size: for every
  width and height that are not negative, 0 included, \<open>emptyMaze\<close> returns a grid of
  \<open>height\<close> rows of \<open>width\<close> rooms, without rooms when either is 0. On the grid of one
  room every generator returns at once, whatever the random source draws:
  \<open>carvePassagesFrom\<close> from \<open>(0, 0)\<close> returns the full grid unchanged, \<open>prim\<close> connects
  nothing and returns the grid without walls, \<open>recursiveDivision\<close> places no dividing
  wall and adds the south and east border, and \<open>kruskal\<close> returns.
\<close>

theorem no_size_check:
  "(0 \<le> xSize \<and> 0 \<le> ySize \<longrightarrow>
      emptyMaze xSize ySize =
        Returned
          \<lparr>rooms = replicate (nat ySize) (replicate (nat xSize) Room0),
           start = Coordinate0, endp = Coordinate0, icarus = Coordinate0, StepsTaken = 0\<rparr>)
   \<and> fullMaze 1 1 = Returned full11
   \<and> carvePassagesFrom (Suc k) 0 0 (r, full11) = Returned (snd (Perm 4 r), full11)
   \<and> (\<exists>s. prim (Suc (Suc k)) 1 1 g it = Returned s
          \<and> pmaze s = open11 \<and> frontiers s = [] \<and> joined s = [])
   \<and> recursiveDivision 1 1 r = Returned (snd (next_draw r), border11)
   \<and> (\<exists>g' m'. kruskal (Suc k) src (g, full11) = Returned (g', m'))"
proof -
  have "fullMaze 1 1 = Returned full11"
    by code_simp
  then show ?thesis
    using carve_full11 [of k r] prim_11 [of k g it] recursiveDivision_11 [of r]
      kruskal_full11 [of k src g]
    by (simp add: emptyMaze_def)
qed

theorem no_size_check_witness:
  "emptyMaze 0 2 = Returned (open11\<lparr>rooms := [[], []]\<rparr>)
   \<and> carvePassagesFrom 1 0 0 ([], full11) = Returned ([], full11)
   \<and> recursiveDivision 1 1 [] = Returned ([], border11)"
proof -
  have a: "(0::int) \<le> 0 \<and> (0::int) \<le> 2"
    by simp
  have p: "snd (Perm 4 []) = []" "snd (next_draw []) = []"
    by code_simp+
  from no_size_check [of 0 2 0 "[]"] a p show ?thesis
    by (simp add: open11_def numeral_2_eq_2)
qed

text \<open>
  Claim C9 as stated fails: for width and height 0 \<open>emptyMaze\<close> returns a maze without
  rooms and no error, and for width 0 \<open>recursiveDivision\<close> returns three empty rows. And a
  grid of height 1 is carved: on the full grid of two rooms in a row
  \<open>carvePassagesFrom\<close> removes the wall between the two.
\<close>

theorem no_size_check_counterexample:
  "emptyMaze 0 0 = Returned (open11\<lparr>rooms := []\<rparr>)
   \<and> recursiveDivision 0 3 [] = Returned ([], open11\<lparr>rooms := [[], [], []]\<rparr>)
   \<and> passages walled21 = 0
   \<and> carvePassagesFrom 3 0 0 ([], walled21)
     = Returned ([], walled21\<lparr>rooms :=
         [[Room0\<lparr>Visited := True,
                 Walls := \<lparr>Top = True, Right = False, Bottom = True, Left = True\<rparr>\<rparr>,
           Room0\<lparr>Treasure := True, Visited := True,
                 Walls := \<lparr>Top = True, Right = True, Bottom = True, Left = False\<rparr>\<rparr>]]\<rparr>)
   \<and> passages (walled21\<lparr>rooms :=
         [[Room0\<lparr>Visited := True,
                 Walls := \<lparr>Top = True, Right = False, Bottom = True, Left = True\<rparr>\<rparr>,
           Room0\<lparr>Treasure := True, Visited := True,
                 Walls := \<lparr>Top = True, Right = True, Bottom = True, Left = False\<rparr>\<rparr>]]\<rparr>) = 1"
  by code_simp

end
